theory Spec2Isabelle
  imports Main "HOL-Library.Monad_Syntax"
begin

section \<open>Clarity values and primitives\<close>

text \<open>
  The lending pool is the Clarity contract \<^verbatim>\<open>stackslend-v2\<close>; its collateral token is the
  contract \<^verbatim>\<open>mock-sbtc-token-v2\<close>. Clarity's \<^verbatim>\<open>uint\<close> is an unsigned 128-bit integer
  whose arithmetic does not wrap: an overflow, an underflow or a division by zero is a
  runtime error that aborts the transaction. Every such operation is therefore modelled
  as a function into \<open>nat option\<close>, where \<open>None\<close> is the runtime error.
\<close>

datatype principal = Standard string | Contract string

datatype 'a response = Ok 'a | Err nat

definition uint_limit :: nat where
  "uint_limit = 2 ^ 128"

definition uadd :: "nat \<Rightarrow> nat \<Rightarrow> nat option" where
  "uadd a b = (if a + b < uint_limit then Some (a + b) else None)"

definition usub :: "nat \<Rightarrow> nat \<Rightarrow> nat option" where
  "usub a b = (if b \<le> a then Some (a - b) else None)"

definition umul :: "nat \<Rightarrow> nat \<Rightarrow> nat option" where
  "umul a b = (if a * b < uint_limit then Some (a * b) else None)"

definition udiv :: "nat \<Rightarrow> nat \<Rightarrow> nat option" where
  "udiv a b = (if b = 0 then None else Some (a div b))"

text \<open>\<^verbatim>\<open>unwrap-panic\<close>: an \<^verbatim>\<open>err\<close> response is a runtime error.\<close>

definition unwrap_panic :: "'a response \<Rightarrow> 'a option" where
  "unwrap_panic r = (case r of Ok v \<Rightarrow> Some v | Err e \<Rightarrow> None)"

section \<open>Contract storage\<close>

record collateral_entry =
  col_amount :: nat

record deposit_entry =
  dep_amount :: nat
  yield_index :: nat

record borrow_entry =
  bor_amount :: nat
  last_accrued :: nat

text \<open>
  The data variables and maps of the pool, together with the two ledgers the pool moves
  assets on: the STX balances of the chain and the balances of the sBTC token contract.
\<close>

record world =
  total_sbtc_collateral :: nat
  total_stx_deposits :: nat
  total_stx_borrows :: nat
  last_interest_accrual :: nat
  cumulative_yield_bips :: nat
  admin :: principal
  paused :: bool
  ltv_percentage :: nat
  interest_rate_percentage :: nat
  liquidation_threshold_percentage :: nat
  liquidation_penalty_percentage :: nat
  sbtc_token :: principal
  collateral :: "principal \<rightharpoonup> collateral_entry"
  deposits :: "principal \<rightharpoonup> deposit_entry"
  borrows :: "principal \<rightharpoonup> borrow_entry"
  stx_balance :: "principal \<Rightarrow> nat"
  sbtc_balance :: "principal \<Rightarrow> nat"

subsection \<open>Constants\<close>

definition ERR_INVALID_WITHDRAW_AMOUNT :: "bool response" where
  "ERR_INVALID_WITHDRAW_AMOUNT = Err 100"

definition ERR_EXCEEDED_MAX_BORROW :: "bool response" where
  "ERR_EXCEEDED_MAX_BORROW = Err 101"

definition ERR_CANNOT_BE_LIQUIDATED :: "bool response" where
  "ERR_CANNOT_BE_LIQUIDATED = Err 102"

definition ERR_INVALID_SBTC_CONTRACT :: "bool response" where
  "ERR_INVALID_SBTC_CONTRACT = Err 105"

definition ERR_UNAUTHORIZED :: "bool response" where
  "ERR_UNAUTHORIZED = Err 107"

definition ERR_PAUSED :: "bool response" where
  "ERR_PAUSED = Err 108"

definition ERR_INVALID_BORROW_AMOUNT :: "bool response" where
  "ERR_INVALID_BORROW_AMOUNT = Err 109"

definition ERR_INVALID_LIQUIDATION :: "bool response" where
  "ERR_INVALID_LIQUIDATION = Err 110"

definition ERR_INVALID_DEPOSIT_AMOUNT :: "bool response" where
  "ERR_INVALID_DEPOSIT_AMOUNT = Err 111"

definition ERR_INSUFFICIENT_LIQUIDITY :: "bool response" where
  "ERR_INSUFFICIENT_LIQUIDITY = Err 112"

definition ERR_INVALID_PRICE :: "bool response" where
  "ERR_INVALID_PRICE = Err 113"

definition LTV_PERCENTAGE :: nat where
  "LTV_PERCENTAGE = 70"

definition INTEREST_RATE_PERCENTAGE :: nat where
  "INTEREST_RATE_PERCENTAGE = 10"

definition LIQUIDATION_THRESHOLD_PERCENTAGE :: nat where
  "LIQUIDATION_THRESHOLD_PERCENTAGE = 100"

definition LIQUIDATION_PENALTY_PERCENTAGE :: nat where
  "LIQUIDATION_PENALTY_PERCENTAGE = 10"

definition ONE_YEAR_IN_SECS :: nat where
  "ONE_YEAR_IN_SECS = 31556952"

definition DEFAULT_ADMIN :: principal where
  "DEFAULT_ADMIN = Standard ''SP1G4ZDXED8XM2XJ4Q4GJ7F4PG4EJQ1KKXRCD0S3K''"

definition DEFAULT_SBTC_TOKEN :: principal where
  "DEFAULT_SBTC_TOKEN = Contract ''mock-sbtc-token-v2''"

text \<open>The storage right after deployment; the two ledgers are whatever the chain holds.\<close>

definition initial_world :: "(principal \<Rightarrow> nat) \<Rightarrow> (principal \<Rightarrow> nat) \<Rightarrow> world" where
  "initial_world stx sbtc =
     \<lparr> total_sbtc_collateral = 0,
       total_stx_deposits = 0,
       total_stx_borrows = 0,
       last_interest_accrual = 0,
       cumulative_yield_bips = 0,
       admin = DEFAULT_ADMIN,
       paused = False,
       ltv_percentage = LTV_PERCENTAGE,
       interest_rate_percentage = INTEREST_RATE_PERCENTAGE,
       liquidation_threshold_percentage = LIQUIDATION_THRESHOLD_PERCENTAGE,
       liquidation_penalty_percentage = LIQUIDATION_PENALTY_PERCENTAGE,
       sbtc_token = DEFAULT_SBTC_TOKEN,
       collateral = Map.empty,
       deposits = Map.empty,
       borrows = Map.empty,
       stx_balance = stx,
       sbtc_balance = sbtc \<rparr>"

section \<open>Asset transfers\<close>

text \<open>
  The built-in \<^verbatim>\<open>stx-transfer?\<close>, with the error codes of the language: \<open>u3\<close> for a zero
  amount, \<open>u2\<close> when sender and recipient coincide, \<open>u4\<close> when the sender is not the
  current \<^verbatim>\<open>tx-sender\<close>, \<open>u1\<close> for an insufficient balance.
\<close>

definition stx_transfer :: "nat \<Rightarrow> principal \<Rightarrow> principal \<Rightarrow> principal \<Rightarrow> world \<Rightarrow> world response" where
  "stx_transfer amount sender recipient tx_sender s =
     (if amount = 0 then Err 3
      else if sender = recipient then Err 2
      else if sender \<noteq> tx_sender then Err 4
      else if stx_balance s sender < amount then Err 1
      else Ok (s\<lparr>stx_balance := (stx_balance s)
                 (sender := stx_balance s sender - amount,
                  recipient := stx_balance s recipient + amount)\<rparr>))"

text \<open>The built-in \<^verbatim>\<open>ft-transfer?\<close> on the token \<^verbatim>\<open>sbtc\<close>.\<close>

definition ft_transfer :: "nat \<Rightarrow> principal \<Rightarrow> principal \<Rightarrow> world \<Rightarrow> world response" where
  "ft_transfer amount sender recipient s =
     (if amount = 0 then Err 3
      else if sender = recipient then Err 2
      else if sbtc_balance s sender < amount then Err 1
      else Ok (s\<lparr>sbtc_balance := (sbtc_balance s)
                 (sender := sbtc_balance s sender - amount,
                  recipient := sbtc_balance s recipient + amount)\<rparr>))"

text \<open>\<^verbatim>\<open>transfer\<close> of \<^verbatim>\<open>mock-sbtc-token-v2\<close> (the memo is not used).\<close>

definition sbtc_transfer :: "nat \<Rightarrow> principal \<Rightarrow> principal \<Rightarrow> principal \<Rightarrow> world \<Rightarrow> world response" where
  "sbtc_transfer amount sender recipient tx_sender s =
     (if sender \<noteq> tx_sender then Err 100
      else case ft_transfer amount sender recipient s of
             Err e \<Rightarrow> Err e
           | Ok s' \<Rightarrow> Ok s')"

section \<open>Private functions of the pool\<close>

text \<open>The pool's own principal, \<^verbatim>\<open>(as-contract tx-sender)\<close>.\<close>

definition contract_principal :: principal where
  "contract_principal = Contract ''stackslend-v2''"

definition get_contract_balance :: "world \<Rightarrow> nat" where
  "get_contract_balance s = stx_balance s contract_principal"

definition get_current_time :: nat where
  "get_current_time = 0"

text \<open>
  \<^verbatim>\<open>accrue-interest\<close> binds \<^verbatim>\<open>current-time\<close> to \<^verbatim>\<open>(get-current-time)\<close> and runs its
  body; \<open>accrue_interest_at\<close> is that body as a function of the bound value.
\<close>

definition accrue_interest_at :: "nat \<Rightarrow> world \<Rightarrow> world option" where
  "accrue_interest_at current_time s =
     (let last_accrual = last_interest_accrual s in
      if last_accrual = 0 then Some (s\<lparr>last_interest_accrual := current_time\<rparr>)
      else do {
        dt \<leftarrow> usub current_time last_accrual;
        if dt > 0 then do {
          let total_borrows = total_stx_borrows s;
          rated \<leftarrow> umul total_borrows (interest_rate_percentage s);
          interest_numerator \<leftarrow> umul rated dt;
          interest_denominator \<leftarrow> umul ONE_YEAR_IN_SECS 100;
          interest \<leftarrow> udiv interest_numerator interest_denominator;
          let total_deposits = total_stx_deposits s;
          new_yield \<leftarrow> (if total_deposits > 0
                        then do { scaled \<leftarrow> umul interest 10000; udiv scaled total_deposits }
                        else Some 0);
          let s1 = s\<lparr>last_interest_accrual := current_time\<rparr>;
          grown \<leftarrow> uadd total_borrows interest;
          let s2 = s1\<lparr>total_stx_borrows := grown\<rparr>;
          bips \<leftarrow> uadd (cumulative_yield_bips s2) new_yield;
          Some (s2\<lparr>cumulative_yield_bips := bips\<rparr>)
        } else Some s
      })"

definition accrue_interest :: "world \<Rightarrow> world option" where
  "accrue_interest s = accrue_interest_at get_current_time s"

text \<open>\<^verbatim>\<open>calculate-interest\<close>, in the same way.\<close>

definition calculate_interest_at :: "nat \<Rightarrow> world \<Rightarrow> nat \<Rightarrow> nat \<Rightarrow> nat option" where
  "calculate_interest_at current_time s principal_amount last_accrued_time =
     do {
       dt \<leftarrow> usub current_time last_accrued_time;
       if dt > 0 then do {
         let rate = interest_rate_percentage s;
         rated \<leftarrow> umul rate dt;
         numerator \<leftarrow> umul principal_amount rated;
         denominator \<leftarrow> umul ONE_YEAR_IN_SECS 100;
         udiv numerator denominator
       } else Some 0
     }"

definition calculate_interest :: "world \<Rightarrow> nat \<Rightarrow> nat \<Rightarrow> nat option" where
  "calculate_interest s principal_amount last_accrued_time =
     calculate_interest_at get_current_time s principal_amount last_accrued_time"

section \<open>Read-only functions\<close>

definition get_pending_yield :: "world \<Rightarrow> principal \<Rightarrow> nat option" where
  "get_pending_yield s user =
     (let deposit = deposits s user;
          amount_stx = (case deposit of None \<Rightarrow> 0 | Some d \<Rightarrow> dep_amount d);
          yield_idx = (case deposit of None \<Rightarrow> 0 | Some d \<Rightarrow> yield_index d)
      in do {
        delta \<leftarrow> usub (cumulative_yield_bips s) yield_idx;
        scaled \<leftarrow> umul amount_stx delta;
        udiv scaled 10000
      })"

definition get_debt :: "world \<Rightarrow> principal \<Rightarrow> nat option" where
  "get_debt s user =
     (let borrow = borrows s user;
          amount = (case borrow of None \<Rightarrow> 0 | Some b \<Rightarrow> bor_amount b);
          last_accrued_time = (case borrow of None \<Rightarrow> get_current_time | Some b \<Rightarrow> last_accrued b)
      in do {
        interest \<leftarrow> calculate_interest s amount last_accrued_time;
        uadd amount interest
      })"

definition get_collateral :: "world \<Rightarrow> principal \<Rightarrow> nat" where
  "get_collateral s user = (case collateral s user of None \<Rightarrow> 0 | Some e \<Rightarrow> col_amount e)"

section \<open>Public functions\<close>

text \<open>
  The body of a public function runs on the storage and either hits a runtime error
  (\<open>None\<close>) or returns a response together with the storage as the body left it at
  that point. What the chain commits is decided by \<open>call_public\<close> below.
\<close>

type_synonym body_result = "(bool response \<times> world) option"

text \<open>
  \<^verbatim>\<open>get-sbtc-stx-price\<close> forwards \<^verbatim>\<open>get-price\<close> of the contract \<^verbatim>\<open>mock-oracle-v2\<close>,
  whose response is an input of the call.
\<close>

definition get_sbtc_stx_price :: "nat response \<Rightarrow> nat response" where
  "get_sbtc_stx_price oracle = oracle"

definition deposit_stx :: "principal \<Rightarrow> nat \<Rightarrow> world \<Rightarrow> body_result" where
  "deposit_stx tx_sender amount s =
     (let existing = deposits s tx_sender;
          deposited_stx = (case existing of None \<Rightarrow> 0 | Some d \<Rightarrow> dep_amount d)
      in if paused s \<noteq> False then Some (ERR_PAUSED, s)
         else if \<not> amount > 0 then Some (ERR_INVALID_DEPOSIT_AMOUNT, s)
         else do {
           s1 \<leftarrow> accrue_interest s;
           case stx_transfer amount tx_sender contract_principal tx_sender s1 of
             Err e \<Rightarrow> Some (Err 1, s1)
           | Ok s2 \<Rightarrow> do {
               new_amount \<leftarrow> uadd deposited_stx amount;
               let s3 = s2\<lparr>deposits := (deposits s2)
                          (tx_sender \<mapsto> \<lparr>dep_amount = new_amount,
                                         yield_index = cumulative_yield_bips s2\<rparr>)\<rparr>;
               total \<leftarrow> uadd (total_stx_deposits s3) amount;
               Some (Ok True, s3\<lparr>total_stx_deposits := total\<rparr>)
             }
         })"

definition withdraw_stx :: "principal \<Rightarrow> nat \<Rightarrow> world \<Rightarrow> body_result" where
  "withdraw_stx tx_sender amount s =
     (case deposits s tx_sender of
        None \<Rightarrow> Some (ERR_INVALID_WITHDRAW_AMOUNT, s)
      | Some deposit \<Rightarrow>
          let deposited_stx = dep_amount deposit;
              caller = tx_sender
          in if paused s \<noteq> False then Some (ERR_PAUSED, s)
             else if \<not> amount > 0 then Some (ERR_INVALID_WITHDRAW_AMOUNT, s)
             else if \<not> deposited_stx \<ge> amount then Some (ERR_INVALID_WITHDRAW_AMOUNT, s)
             else do {
               s1 \<leftarrow> accrue_interest s;
               pending_yield \<leftarrow> get_pending_yield s1 tx_sender;
               new_amount \<leftarrow> usub deposited_stx amount;
               let s2 = (if new_amount = 0
                         then s1\<lparr>deposits := (deposits s1)(tx_sender := None)\<rparr>
                         else s1\<lparr>deposits := (deposits s1)
                                 (tx_sender \<mapsto> \<lparr>dep_amount = new_amount,
                                                yield_index = cumulative_yield_bips s1\<rparr>)\<rparr>);
               total \<leftarrow> usub (total_stx_deposits s2) amount;
               let s3 = s2\<lparr>total_stx_deposits := total\<rparr>;
               payout \<leftarrow> uadd amount pending_yield;
               if \<not> get_contract_balance s3 \<ge> payout then Some (ERR_INSUFFICIENT_LIQUIDITY, s3)
               else case stx_transfer payout contract_principal caller contract_principal s3 of
                      Err e \<Rightarrow> Some (Err 1, s3)
                    | Ok s4 \<Rightarrow> Some (Ok True, s4)
             })"

definition borrow_stx :: "principal \<Rightarrow> nat response \<Rightarrow> nat \<Rightarrow> nat \<Rightarrow> world \<Rightarrow> body_result" where
  "borrow_stx tx_sender oracle collateral_amount amount_stx s =
     (let existing_borrow = borrows s tx_sender;
          existing_collateral = collateral s tx_sender;
          caller = tx_sender
      in if paused s \<noteq> False then Some (ERR_PAUSED, s)
         else if \<not> amount_stx > 0 then Some (ERR_INVALID_BORROW_AMOUNT, s)
         else if \<not> (collateral_amount > 0 \<or>
                     (case existing_collateral of None \<Rightarrow> 0 | Some e \<Rightarrow> col_amount e) > 0)
              then Some (ERR_EXCEEDED_MAX_BORROW, s)
         else do {
           s1 \<leftarrow> accrue_interest s;
           let existing_collateral_amount =
                 (case existing_collateral of None \<Rightarrow> 0 | Some e \<Rightarrow> col_amount e);
           total_collateral \<leftarrow> uadd existing_collateral_amount collateral_amount;
           price \<leftarrow> unwrap_panic (get_sbtc_stx_price oracle);
           let collateral_value = total_collateral;
           priced \<leftarrow> umul collateral_value price;
           weighted \<leftarrow> umul priced (ltv_percentage s1);
           max_borrow \<leftarrow> udiv weighted 100;
           let current_borrow = (case existing_borrow of None \<Rightarrow> 0 | Some b \<Rightarrow> bor_amount b);
           let last_accrued_time =
                 (case existing_borrow of None \<Rightarrow> get_current_time | Some b \<Rightarrow> last_accrued b);
           interest \<leftarrow> calculate_interest s1 current_borrow last_accrued_time;
           owed \<leftarrow> uadd current_borrow interest;
           new_borrow \<leftarrow> uadd owed amount_stx;
           if \<not> price > 0 then Some (ERR_INVALID_PRICE, s1)
           else if \<not> new_borrow \<le> max_borrow then Some (ERR_EXCEEDED_MAX_BORROW, s1)
           else if \<not> get_contract_balance s1 \<ge> amount_stx then Some (ERR_INSUFFICIENT_LIQUIDITY, s1)
           else case (if collateral_amount > 0
                      then sbtc_transfer collateral_amount tx_sender contract_principal tx_sender s1
                      else Ok s1) of
                  Err e \<Rightarrow> Some (ERR_INVALID_SBTC_CONTRACT, s1)
                | Ok s2 \<Rightarrow>
                   (case stx_transfer amount_stx contract_principal caller contract_principal s2 of
                      Err e \<Rightarrow> Some (Err 1, s2)
                    | Ok s3 \<Rightarrow> do {
                        let s4 = s3\<lparr>collateral := (collateral s3)
                                   (tx_sender \<mapsto> \<lparr>col_amount = total_collateral\<rparr>)\<rparr>;
                        let s5 = s4\<lparr>borrows := (borrows s4)
                                   (tx_sender \<mapsto> \<lparr>bor_amount = new_borrow,
                                                  last_accrued = get_current_time\<rparr>)\<rparr>;
                        total_b \<leftarrow> uadd (total_stx_borrows s5) amount_stx;
                        let s6 = s5\<lparr>total_stx_borrows := total_b\<rparr>;
                        s7 \<leftarrow> (if collateral_amount > 0
                               then do {
                                 total_c \<leftarrow> uadd (total_sbtc_collateral s6) collateral_amount;
                                 Some (s6\<lparr>total_sbtc_collateral := total_c\<rparr>)
                               }
                               else Some s6);
                        Some (Ok True, s7)
                      })
         })"

definition repay :: "principal \<Rightarrow> world \<Rightarrow> body_result" where
  "repay tx_sender s =
     (case borrows s tx_sender of
        None \<Rightarrow> Some (ERR_INVALID_WITHDRAW_AMOUNT, s)
      | Some borrow \<Rightarrow>
          let borrowed = bor_amount borrow;
              last_accrued_time = last_accrued borrow;
              collateral_entry = collateral s tx_sender;
              collateral_amount = (case collateral_entry of None \<Rightarrow> 0 | Some e \<Rightarrow> col_amount e);
              caller = tx_sender
          in if paused s \<noteq> False then Some (ERR_PAUSED, s)
             else if \<not> borrowed > 0 then Some (ERR_INVALID_WITHDRAW_AMOUNT, s)
             else do {
               interest \<leftarrow> calculate_interest s borrowed last_accrued_time;
               total_owed \<leftarrow> uadd borrowed interest;
               case stx_transfer total_owed tx_sender contract_principal tx_sender s of
                 Err e \<Rightarrow> Some (Err 1, s)
               | Ok s1 \<Rightarrow>
                  (case (if collateral_amount > 0
                         then sbtc_transfer collateral_amount contract_principal caller
                                contract_principal s1
                         else Ok s1) of
                     Err e \<Rightarrow> Some (ERR_INVALID_SBTC_CONTRACT, s1)
                   | Ok s2 \<Rightarrow> do {
                       let s3 = s2\<lparr>borrows := (borrows s2)(tx_sender := None)\<rparr>;
                       let s4 = s3\<lparr>collateral := (collateral s3)(tx_sender := None)\<rparr>;
                       total_b \<leftarrow> usub (total_stx_borrows s4) total_owed;
                       let s5 = s4\<lparr>total_stx_borrows := total_b\<rparr>;
                       total_c \<leftarrow> usub (total_sbtc_collateral s5) collateral_amount;
                       Some (Ok True, s5\<lparr>total_sbtc_collateral := total_c\<rparr>)
                     })
             })"

definition liquidate :: "principal \<Rightarrow> nat response \<Rightarrow> principal \<Rightarrow> world \<Rightarrow> body_result" where
  "liquidate tx_sender oracle user s =
     (case borrows s user of
        None \<Rightarrow> Some (ERR_CANNOT_BE_LIQUIDATED, s)
      | Some borrow \<Rightarrow>
         (case collateral s user of
            None \<Rightarrow> Some (ERR_CANNOT_BE_LIQUIDATED, s)
          | Some collateral_entry \<Rightarrow>
              let borrowed = bor_amount borrow;
                  last_accrued_time = last_accrued borrow;
                  collateral_amount = col_amount collateral_entry;
                  liquidator = tx_sender
              in if paused s \<noteq> False then Some (ERR_PAUSED, s)
                 else do {
                   interest \<leftarrow> calculate_interest s borrowed last_accrued_time;
                   total_owed \<leftarrow> uadd borrowed interest;
                   price \<leftarrow> unwrap_panic (get_sbtc_stx_price oracle);
                   collateral_value \<leftarrow> umul collateral_amount price;
                   let threshold = liquidation_threshold_percentage s;
                   let penalty = liquidation_penalty_percentage s;
                   if \<not> price > 0 then Some (ERR_INVALID_PRICE, s)
                   else do {
                     owed_scaled \<leftarrow> umul total_owed 100;
                     value_scaled \<leftarrow> umul collateral_value threshold;
                     if \<not> owed_scaled \<ge> value_scaled then Some (ERR_CANNOT_BE_LIQUIDATED, s)
                     else do {
                       kept \<leftarrow> usub 100 penalty;
                       discounted \<leftarrow> umul total_owed kept;
                       repay_amount \<leftarrow> udiv discounted 100;
                       case stx_transfer repay_amount tx_sender contract_principal tx_sender s of
                         Err e \<Rightarrow> Some (Err 1, s)
                       | Ok s1 \<Rightarrow>
                          (case sbtc_transfer collateral_amount contract_principal liquidator
                                  contract_principal s1 of
                             Err e \<Rightarrow> Some (ERR_INVALID_SBTC_CONTRACT, s1)
                           | Ok s2 \<Rightarrow> do {
                               let s3 = s2\<lparr>borrows := (borrows s2)(user := None)\<rparr>;
                               let s4 = s3\<lparr>collateral := (collateral s3)(user := None)\<rparr>;
                               total_b \<leftarrow> usub (total_stx_borrows s4) total_owed;
                               let s5 = s4\<lparr>total_stx_borrows := total_b\<rparr>;
                               total_c \<leftarrow> usub (total_sbtc_collateral s5) collateral_amount;
                               Some (Ok True, s5\<lparr>total_sbtc_collateral := total_c\<rparr>)
                             })
                     }
                   }
                 }))"

subsection \<open>Admin functions\<close>

definition set_paused :: "principal \<Rightarrow> bool \<Rightarrow> world \<Rightarrow> body_result" where
  "set_paused tx_sender paused_value s =
     (if tx_sender \<noteq> admin s then Some (ERR_UNAUTHORIZED, s)
      else Some (Ok True, s\<lparr>paused := paused_value\<rparr>))"

definition set_admin :: "principal \<Rightarrow> principal \<Rightarrow> world \<Rightarrow> body_result" where
  "set_admin tx_sender new_admin s =
     (if tx_sender \<noteq> admin s then Some (ERR_UNAUTHORIZED, s)
      else Some (Ok True, s\<lparr>admin := new_admin\<rparr>))"

definition set_params :: "principal \<Rightarrow> nat \<Rightarrow> nat \<Rightarrow> nat \<Rightarrow> nat \<Rightarrow> world \<Rightarrow> body_result" where
  "set_params tx_sender new_ltv new_interest new_threshold new_penalty s =
     (if tx_sender \<noteq> admin s then Some (ERR_UNAUTHORIZED, s)
      else if \<not> new_ltv \<le> 90 then Some (ERR_INVALID_LIQUIDATION, s)
      else if \<not> new_interest \<le> 100 then Some (ERR_INVALID_LIQUIDATION, s)
      else if \<not> new_threshold \<le> 150 then Some (ERR_INVALID_LIQUIDATION, s)
      else if \<not> new_penalty \<le> 30 then Some (ERR_INVALID_LIQUIDATION, s)
      else Some (Ok True,
                 s\<lparr>ltv_percentage := new_ltv,
                   interest_rate_percentage := new_interest,
                   liquidation_threshold_percentage := new_threshold,
                   liquidation_penalty_percentage := new_penalty\<rparr>))"

definition set_sbtc_token :: "principal \<Rightarrow> principal \<Rightarrow> world \<Rightarrow> body_result" where
  "set_sbtc_token tx_sender new_token s =
     (if tx_sender \<noteq> admin s then Some (ERR_UNAUTHORIZED, s)
      else Some (Ok True, s\<lparr>sbtc_token := new_token\<rparr>))"

section \<open>Transactions\<close>

text \<open>
  A contract call names the public function and its arguments. Clarity commits the
  storage writes of a public function only when it returns \<^verbatim>\<open>(ok ...)\<close>: on an
  \<^verbatim>\<open>(err ...)\<close> response, and on a runtime error, every write made during the call is
  rolled back.
\<close>

datatype call =
    Deposit_stx nat
  | Withdraw_stx nat
  | Borrow_stx nat nat
  | Repay
  | Liquidate principal
  | Set_paused bool
  | Set_admin principal
  | Set_params nat nat nat nat
  | Set_sbtc_token principal

fun body :: "principal \<Rightarrow> nat response \<Rightarrow> call \<Rightarrow> world \<Rightarrow> body_result" where
  "body tx_sender oracle (Deposit_stx amount) s = deposit_stx tx_sender amount s"
| "body tx_sender oracle (Withdraw_stx amount) s = withdraw_stx tx_sender amount s"
| "body tx_sender oracle (Borrow_stx collateral_amount amount_stx) s =
     borrow_stx tx_sender oracle collateral_amount amount_stx s"
| "body tx_sender oracle Repay s = repay tx_sender s"
| "body tx_sender oracle (Liquidate user) s = liquidate tx_sender oracle user s"
| "body tx_sender oracle (Set_paused v) s = set_paused tx_sender v s"
| "body tx_sender oracle (Set_admin a) s = set_admin tx_sender a s"
| "body tx_sender oracle (Set_params l i t p) s = set_params tx_sender l i t p s"
| "body tx_sender oracle (Set_sbtc_token t) s = set_sbtc_token tx_sender t s"

datatype tx_result = Committed | Rejected nat | Runtime_error

definition call_public :: "principal \<Rightarrow> nat response \<Rightarrow> call \<Rightarrow> world \<Rightarrow> tx_result \<times> world" where
  "call_public tx_sender oracle c s =
     (case body tx_sender oracle c s of
        None \<Rightarrow> (Runtime_error, s)
      | Some (Err e, s') \<Rightarrow> (Rejected e, s)
      | Some (Ok v, s') \<Rightarrow> (Committed, s'))"

text \<open>
  The states the pool can be in: the deployed storage, and whatever a committed call
  leaves. Between calls the two ledgers change through transfers, mints and burns that
  do not go through the pool's functions; the model lets them change in any way.
\<close>

inductive reachable :: "world \<Rightarrow> bool" where
  reachable_init: "reachable (initial_world stx sbtc)"
| reachable_ledger: "reachable s \<Longrightarrow> reachable (s\<lparr>stx_balance := stx, sbtc_balance := sbtc\<rparr>)"
| reachable_call: "reachable s \<Longrightarrow> call_public tx_sender oracle c s = (Committed, s') \<Longrightarrow> reachable s'"

section \<open>Aggregates and invariants\<close>

text \<open>
  The sum of one numeric field over all entries of a map, and the field of one entry
  (zero when the key is absent, as \<^verbatim>\<open>default-to u0\<close> reads it).
\<close>

definition map_total :: "('v \<Rightarrow> nat) \<Rightarrow> ('k \<rightharpoonup> 'v) \<Rightarrow> nat" where
  "map_total f m = (\<Sum>k\<in>dom m. f (the (m k)))"

definition entry_of :: "('v \<Rightarrow> nat) \<Rightarrow> ('k \<rightharpoonup> 'v) \<Rightarrow> 'k \<Rightarrow> nat" where
  "entry_of f m k = (case m k of None \<Rightarrow> 0 | Some v \<Rightarrow> f v)"

text \<open>
  Every timestamp the pool stores is the reading of its clock, which is always zero.
\<close>

definition clock_inv :: "world \<Rightarrow> bool" where
  "clock_inv s \<longleftrightarrow>
     last_interest_accrual s = 0 \<and>
     (\<forall>u b. borrows s u = Some b \<longrightarrow> last_accrued b = 0 \<and> bor_amount b < uint_limit)"

text \<open>The three aggregates are the sums of the per-account entries.\<close>

definition ledger_inv :: "world \<Rightarrow> bool" where
  "ledger_inv s \<longleftrightarrow>
     finite (dom (deposits s)) \<and> finite (dom (collateral s)) \<and> finite (dom (borrows s)) \<and>
     map_total dep_amount (deposits s) = total_stx_deposits s \<and>
     map_total col_amount (collateral s) = total_sbtc_collateral s \<and>
     map_total bor_amount (borrows s) = total_stx_borrows s"

text \<open>Collateral entries are positive, and the penalty stays within the bound of \<^verbatim>\<open>set-params\<close>.\<close>

definition config_inv :: "world \<Rightarrow> bool" where
  "config_inv s \<longleftrightarrow>
     liquidation_penalty_percentage s \<le> 30 \<and>
     (\<forall>u e. collateral s u = Some e \<longrightarrow> 0 < col_amount e)"

section \<open>A concrete run\<close>

text \<open>
  The run of the repository's test "borrows against mock sBTC and repays": wallet 1
  deposits 10000, then wallet 2 posts 10 sBTC at an oracle price of 100 and borrows 500.
\<close>

definition wallet_1 :: principal where "wallet_1 = Standard ''wallet_1''"
definition wallet_2 :: principal where "wallet_2 = Standard ''wallet_2''"

definition genesis :: world where
  "genesis = initial_world ((\<lambda>p. 0)(wallet_1 := 10000)) ((\<lambda>p. 0)(wallet_2 := 10))"

definition after_deposit :: world where
  "after_deposit = genesis
     \<lparr>total_stx_deposits := 10000,
      deposits := [wallet_1 \<mapsto> \<lparr>dep_amount = 10000, yield_index = 0\<rparr>],
      stx_balance := (\<lambda>p. 0)(contract_principal := 10000)\<rparr>"

definition after_borrow :: world where
  "after_borrow = after_deposit
     \<lparr>total_stx_borrows := 500,
      total_sbtc_collateral := 10,
      collateral := [wallet_2 \<mapsto> \<lparr>col_amount = 10\<rparr>],
      borrows := [wallet_2 \<mapsto> \<lparr>bor_amount = 500, last_accrued = 0\<rparr>],
      stx_balance := (\<lambda>p. 0)(contract_principal := 9500, wallet_2 := 500),
      sbtc_balance := (\<lambda>p. 0)(contract_principal := 10)\<rparr>"

text \<open>Wallet 1 deposits 1000 into the freshly deployed pool.\<close>

definition after_small_deposit :: world where
  "after_small_deposit = genesis
     \<lparr>total_stx_deposits := 1000,
      deposits := [wallet_1 \<mapsto> \<lparr>dep_amount = 1000, yield_index = 0\<rparr>],
      stx_balance := (\<lambda>p. 0)(wallet_1 := 9000, contract_principal := 1000)\<rparr>"

text \<open>
  Two more storages of the run: the pool after the admin has paused it, and the pool
  after a third wallet has received 450 STX.
\<close>

definition paused_world :: world where
  "paused_world = after_borrow\<lparr>paused := True\<rparr>"

definition wallet_3 :: principal where "wallet_3 = Standard ''wallet_3''"

definition liquidator_funded :: world where
  "liquidator_funded = after_borrow
     \<lparr>stx_balance := (\<lambda>p. 0)(contract_principal := 9500, wallet_2 := 500, wallet_3 := 450),
      sbtc_balance := (\<lambda>p. 0)(contract_principal := 10)\<rparr>"





definition lent_out_world :: world where
  "lent_out_world = after_deposit
     \<lparr>total_stx_borrows := 10000,
      total_sbtc_collateral := 10,
      collateral := [wallet_2 \<mapsto> \<lparr>col_amount = 10\<rparr>],
      borrows := [wallet_2 \<mapsto> \<lparr>bor_amount = 10000, last_accrued = 0\<rparr>],
      stx_balance := (\<lambda>p. 0)(contract_principal := 0, wallet_2 := 10000),
      sbtc_balance := (\<lambda>p. 0)(contract_principal := 10)\<rparr>"

section \<open>Basic facts\<close>

lemma accrue_interest_eq:
  "accrue_interest s = (if last_interest_accrual s = 0 then Some s else None)"
  by (simp add: accrue_interest_def accrue_interest_at_def get_current_time_def usub_def Let_def)

lemma calculate_interest_eq:
  "calculate_interest s p t = (if t = 0 then Some 0 else None)"
  by (simp add: calculate_interest_def calculate_interest_at_def get_current_time_def usub_def)

lemmas err_defs = ERR_INVALID_WITHDRAW_AMOUNT_def ERR_EXCEEDED_MAX_BORROW_def
  ERR_CANNOT_BE_LIQUIDATED_def ERR_INVALID_SBTC_CONTRACT_def ERR_UNAUTHORIZED_def ERR_PAUSED_def
  ERR_INVALID_BORROW_AMOUNT_def ERR_INVALID_LIQUIDATION_def ERR_INVALID_DEPOSIT_AMOUNT_def
  ERR_INSUFFICIENT_LIQUIDITY_def ERR_INVALID_PRICE_def

lemma stx_transfer_Ok:
  "stx_transfer a f t x s = Ok s' \<longleftrightarrow>
     a > 0 \<and> f \<noteq> t \<and> f = x \<and> a \<le> stx_balance s f \<and>
     s' = s\<lparr>stx_balance := (stx_balance s)(f := stx_balance s f - a, t := stx_balance s t + a)\<rparr>"
  by (auto simp: stx_transfer_def)

lemma sbtc_transfer_Ok:
  "sbtc_transfer a f t x s = Ok s' \<longleftrightarrow>
     a > 0 \<and> f \<noteq> t \<and> f = x \<and> a \<le> sbtc_balance s f \<and>
     s' = s\<lparr>sbtc_balance := (sbtc_balance s)(f := sbtc_balance s f - a, t := sbtc_balance s t + a)\<rparr>"
  by (auto simp: sbtc_transfer_def ft_transfer_def split: response.splits)

lemma deposit_stx_Ok:
  assumes "deposit_stx u a s = Some (Ok v, s')"
  shows "\<exists>s2. stx_transfer a u contract_principal u s = Ok s2 \<and> last_interest_accrual s = 0 \<and> \<not> paused s \<and>
     (case deposits s u of None \<Rightarrow> 0 | Some d \<Rightarrow> dep_amount d) + a < uint_limit \<and>
     total_stx_deposits s + a < uint_limit \<and>
     s' = s2\<lparr>deposits := (deposits s)(u \<mapsto> \<lparr>dep_amount = (case deposits s u of None \<Rightarrow> 0 | Some d \<Rightarrow> dep_amount d) + a,
                                       yield_index = cumulative_yield_bips s\<rparr>),
            total_stx_deposits := total_stx_deposits s + a\<rparr>"
  using assms
  by (auto simp: deposit_stx_def accrue_interest_eq err_defs uadd_def stx_transfer_Ok Let_def
      split: if_splits response.splits Option.bind_splits)


lemma withdraw_stx_Ok:
  assumes "withdraw_stx u a s = Some (Ok v, s')"
  shows "\<exists>d y s3. deposits s u = Some d \<and> \<not> paused s \<and> 0 < a \<and> a \<le> dep_amount d \<and>
     last_interest_accrual s = 0 \<and> get_pending_yield s u = Some y \<and>
     a \<le> total_stx_deposits s \<and> a + y < uint_limit \<and>
     s3 = s\<lparr>deposits := (if dep_amount d - a = 0 then (deposits s)(u := None)
                           else (deposits s)(u \<mapsto> \<lparr>dep_amount = dep_amount d - a,
                                                   yield_index = cumulative_yield_bips s\<rparr>)),
            total_stx_deposits := total_stx_deposits s - a\<rparr> \<and>
     stx_transfer (a + y) contract_principal u contract_principal s3 = Ok s'"
  using assms
  by (auto simp: withdraw_stx_def accrue_interest_eq err_defs uadd_def usub_def Let_def
      split: if_splits response.splits Option.bind_splits option.splits)

lemma borrow_stx_Ok:
  assumes "borrow_stx u oracle c a s = Some (Ok v, s')"
  shows "\<exists>price s2 s3. oracle = Ok price \<and> 0 < price \<and> \<not> paused s \<and> 0 < a \<and>
     last_interest_accrual s = 0 \<and>
     0 < get_collateral s u + c \<and>
     get_collateral s u + c < uint_limit \<and>
     (case borrows s u of None \<Rightarrow> True | Some b \<Rightarrow> last_accrued b = 0) \<and>
     (case borrows s u of None \<Rightarrow> 0 | Some b \<Rightarrow> bor_amount b) + a < uint_limit \<and>
     (case borrows s u of None \<Rightarrow> 0 | Some b \<Rightarrow> bor_amount b) + a
        \<le> (get_collateral s u + c) * price * ltv_percentage s div 100 \<and>
     (get_collateral s u + c) * price * ltv_percentage s < uint_limit \<and>
     a \<le> get_contract_balance s \<and>
     (if c > 0 then sbtc_transfer c u contract_principal u s else Ok s) = Ok s2 \<and>
     stx_transfer a contract_principal u contract_principal s2 = Ok s3 \<and>
     total_stx_borrows s + a < uint_limit \<and>
     (0 < c \<longrightarrow> total_sbtc_collateral s + c < uint_limit) \<and>
     s' = s3\<lparr>collateral := (collateral s)(u \<mapsto> \<lparr>col_amount = get_collateral s u + c\<rparr>),
             borrows := (borrows s)(u \<mapsto> \<lparr>bor_amount =
                 (case borrows s u of None \<Rightarrow> 0 | Some b \<Rightarrow> bor_amount b) + a, last_accrued = 0\<rparr>),
             total_stx_borrows := total_stx_borrows s + a,
             total_sbtc_collateral := total_sbtc_collateral s + c\<rparr>"
  using assms
  apply (simp add: borrow_stx_def accrue_interest_eq calculate_interest_eq err_defs Let_def
      get_sbtc_stx_price_def unwrap_panic_def get_current_time_def get_collateral_def
      split: if_splits response.splits Option.bind_splits option.splits)
  apply (auto simp: uadd_def umul_def udiv_def stx_transfer_Ok sbtc_transfer_Ok get_contract_balance_def split: if_splits)
  done


lemma repay_Ok:
  assumes "repay u s = Some (Ok v, s')"
  shows "\<exists>b s1 s2. borrows s u = Some b \<and> \<not> paused s \<and> 0 < bor_amount b \<and>
     last_accrued b = 0 \<and> bor_amount b < uint_limit \<and>
     stx_transfer (bor_amount b) u contract_principal u s = Ok s1 \<and>
     (if 0 < get_collateral s u
      then sbtc_transfer (get_collateral s u) contract_principal u contract_principal s1
      else Ok s1) = Ok s2 \<and>
     bor_amount b \<le> total_stx_borrows s \<and>
     get_collateral s u \<le> total_sbtc_collateral s \<and>
     s' = s2\<lparr>borrows := (borrows s)(u := None),
             collateral := (collateral s)(u := None),
             total_stx_borrows := total_stx_borrows s - bor_amount b,
             total_sbtc_collateral := total_sbtc_collateral s - get_collateral s u\<rparr>"
  using assms
  apply (simp add: repay_def calculate_interest_eq err_defs Let_def get_collateral_def
      split: if_splits response.splits Option.bind_splits option.splits)
  apply (auto simp: uadd_def usub_def stx_transfer_Ok sbtc_transfer_Ok split: if_splits)
  done

lemma liquidate_Ok:
  assumes "liquidate t oracle u s = Some (Ok v, s')"
  shows "\<exists>b e price s1 s2. borrows s u = Some b \<and> collateral s u = Some e \<and>
     oracle = Ok price \<and> 0 < price \<and> \<not> paused s \<and>
     last_accrued b = 0 \<and> bor_amount b < uint_limit \<and>
     col_amount e * price < uint_limit \<and> bor_amount b * 100 < uint_limit \<and>
     col_amount e * price * liquidation_threshold_percentage s < uint_limit \<and>
     col_amount e * price * liquidation_threshold_percentage s \<le> bor_amount b * 100 \<and>
     liquidation_penalty_percentage s \<le> 100 \<and>
     stx_transfer (bor_amount b * (100 - liquidation_penalty_percentage s) div 100)
        t contract_principal t s = Ok s1 \<and>
     sbtc_transfer (col_amount e) contract_principal t contract_principal s1 = Ok s2 \<and>
     bor_amount b \<le> total_stx_borrows s \<and>
     col_amount e \<le> total_sbtc_collateral s \<and>
     s' = s2\<lparr>borrows := (borrows s)(u := None),
             collateral := (collateral s)(u := None),
             total_stx_borrows := total_stx_borrows s - bor_amount b,
             total_sbtc_collateral := total_sbtc_collateral s - col_amount e\<rparr>"
  using assms
  apply (simp add: liquidate_def calculate_interest_eq err_defs Let_def
      get_sbtc_stx_price_def unwrap_panic_def
      split: if_splits response.splits Option.bind_splits option.splits)
  apply (auto simp: uadd_def usub_def umul_def udiv_def stx_transfer_Ok sbtc_transfer_Ok split: if_splits)
  done


lemma map_total_empty: "map_total f Map.empty = 0"
  by (simp add: map_total_def)

lemma map_total_split:
  assumes "finite (dom m)"
  shows "map_total f m = entry_of f m k + (\<Sum>j\<in>dom m - {k}. f (the (m j)))"
proof (cases "m k")
  case None
  then have "dom m - {k} = dom m" by auto
  with None show ?thesis by (simp add: map_total_def entry_of_def)
next
  case (Some v)
  then have "k \<in> dom m" by auto
  with assms have "(\<Sum>j\<in>dom m. f (the (m j))) = f (the (m k)) + (\<Sum>j\<in>dom m - {k}. f (the (m j)))"
    by (simp add: sum.remove)
  with Some show ?thesis by (simp add: map_total_def entry_of_def)
qed

lemma map_total_upd:
  assumes "finite (dom m)"
  shows "map_total f (m(k \<mapsto> v)) + entry_of f m k = map_total f m + f v"
proof -
  have fin: "finite (dom (m(k \<mapsto> v)))" using assms by simp
  have "dom (m(k \<mapsto> v)) - {k} = dom m - {k}" by auto
  moreover have "(\<Sum>j\<in>dom m - {k}. f (the ((m(k \<mapsto> v)) j))) = (\<Sum>j\<in>dom m - {k}. f (the (m j)))"
    by (rule sum.cong) auto
  ultimately have "map_total f (m(k \<mapsto> v)) = f v + (\<Sum>j\<in>dom m - {k}. f (the (m j)))"
    using map_total_split [OF fin, of f k] by (simp add: entry_of_def)
  with map_total_split [OF assms, of f k] show ?thesis by simp
qed

lemma map_total_del:
  assumes "finite (dom m)"
  shows "map_total f (m(k := None)) + entry_of f m k = map_total f m"
proof -
  have "dom (m(k := None)) = dom m - {k}" by auto
  moreover have "(\<Sum>j\<in>dom m - {k}. f (the ((m(k := None)) j))) = (\<Sum>j\<in>dom m - {k}. f (the (m j)))"
    by (rule sum.cong) auto
  ultimately have "map_total f (m(k := None)) = (\<Sum>j\<in>dom m - {k}. f (the (m j)))"
    by (simp add: map_total_def)
  with map_total_split [OF assms, of f k] show ?thesis by simp
qed

lemma entry_le_map_total:
  assumes "finite (dom m)"
  shows "entry_of f m k \<le> map_total f m"
  using map_total_split [OF assms, of f k] by simp

lemma map_total_upd_eq:
  assumes "finite (dom m)"
  shows "map_total f (m(k \<mapsto> v)) = map_total f m - entry_of f m k + f v"
  using map_total_upd [OF assms, of f k v] entry_le_map_total [OF assms, of f k] by simp

lemma map_total_del_eq:
  assumes "finite (dom m)"
  shows "map_total f (m(k := None)) = map_total f m - entry_of f m k"
  using map_total_del [OF assms, of f k] by simp

section \<open>Invariants of the reachable states\<close>

lemma clock_inv_body:
  assumes "clock_inv s" and "body t oracle c s = Some (Ok v, s')"
  shows "clock_inv s'"
proof (cases c)
  case (Deposit_stx a)
  with assms show ?thesis
    by (auto simp: clock_inv_def stx_transfer_Ok dest!: deposit_stx_Ok)
next
  case (Withdraw_stx a)
  with assms show ?thesis
    by (auto simp: clock_inv_def stx_transfer_Ok dest!: withdraw_stx_Ok)
next
  case (Borrow_stx ca a)
  with assms show ?thesis
    by (auto simp: clock_inv_def stx_transfer_Ok sbtc_transfer_Ok dest!: borrow_stx_Ok split: if_splits)
next
  case Repay
  with assms show ?thesis
    by (auto simp: clock_inv_def stx_transfer_Ok sbtc_transfer_Ok dest!: repay_Ok split: if_splits)
next
  case (Liquidate u)
  with assms show ?thesis
    by (auto simp: clock_inv_def stx_transfer_Ok sbtc_transfer_Ok dest!: liquidate_Ok split: if_splits)
next
  case (Set_paused x)
  with assms show ?thesis
    by (auto simp: clock_inv_def set_paused_def err_defs split: if_splits)
next
  case (Set_admin x)
  with assms show ?thesis
    by (auto simp: clock_inv_def set_admin_def err_defs split: if_splits)
next
  case (Set_params l i th p)
  with assms show ?thesis
    by (auto simp: clock_inv_def set_params_def err_defs split: if_splits)
next
  case (Set_sbtc_token x)
  with assms show ?thesis
    by (auto simp: clock_inv_def set_sbtc_token_def err_defs split: if_splits)
qed



lemma ledger_inv_deposit:
  assumes "ledger_inv s" and "deposit_stx u a s = Some (Ok v, s')"
  shows "ledger_inv s'"
proof -
  from assms(1) have fin: "finite (dom (deposits s))" by (simp add: ledger_inv_def)
  from deposit_stx_Ok [OF assms(2)] assms(1) entry_le_map_total [OF fin, of dep_amount u]
  show ?thesis
    by (auto simp: ledger_inv_def stx_transfer_Ok entry_of_def map_total_upd_eq)
qed

lemma ledger_inv_withdraw:
  assumes "ledger_inv s" and "withdraw_stx u a s = Some (Ok v, s')"
  shows "ledger_inv s'"
proof -
  from assms(1) have fin: "finite (dom (deposits s))" by (simp add: ledger_inv_def)
  from withdraw_stx_Ok [OF assms(2)] obtain d y s3 where
    d: "deposits s u = Some d" "a \<le> dep_amount d" and
    s3: "s3 = s\<lparr>deposits := (if dep_amount d - a = 0 then (deposits s)(u := None)
                           else (deposits s)(u \<mapsto> \<lparr>dep_amount = dep_amount d - a,
                                                   yield_index = cumulative_yield_bips s\<rparr>)),
            total_stx_deposits := total_stx_deposits s - a\<rparr>" and
    tr: "stx_transfer (a + y) contract_principal u contract_principal s3 = Ok s'"
    by blast
  from d have e: "entry_of dep_amount (deposits s) u = dep_amount d"
    by (simp add: entry_of_def)
  have "ledger_inv s3"
    using assms(1) d e entry_le_map_total [OF fin, of dep_amount u]
    by (simp add: s3 ledger_inv_def map_total_upd_eq map_total_del_eq)
  with tr show ?thesis
    by (auto simp: stx_transfer_Ok ledger_inv_def)
qed

lemma ledger_inv_borrow:
  assumes "ledger_inv s" and "borrow_stx u oracle c a s = Some (Ok v, s')"
  shows "ledger_inv s'"
proof -
  from assms(1) have fin: "finite (dom (collateral s))" "finite (dom (borrows s))"
    by (simp_all add: ledger_inv_def)
  from borrow_stx_Ok [OF assms(2)] assms(1) entry_le_map_total [OF fin(1), of col_amount u]
    entry_le_map_total [OF fin(2), of bor_amount u]
  show ?thesis
    by (auto simp: ledger_inv_def stx_transfer_Ok sbtc_transfer_Ok entry_of_def get_collateral_def
        map_total_upd_eq split: if_splits)
qed

lemma ledger_inv_repay:
  assumes "ledger_inv s" and "repay u s = Some (Ok v, s')"
  shows "ledger_inv s'"
proof -
  from assms(1) have fin: "finite (dom (collateral s))" "finite (dom (borrows s))"
    by (simp_all add: ledger_inv_def)
  from repay_Ok [OF assms(2)] obtain b s1 s2 where
    b: "borrows s u = Some b" and
    t1: "stx_transfer (bor_amount b) u contract_principal u s = Ok s1" and
    t2: "(if 0 < get_collateral s u
      then sbtc_transfer (get_collateral s u) contract_principal u contract_principal s1
      else Ok s1) = Ok s2" and
    s': "s' = s2\<lparr>borrows := (borrows s)(u := None),
             collateral := (collateral s)(u := None),
             total_stx_borrows := total_stx_borrows s - bor_amount b,
             total_sbtc_collateral := total_sbtc_collateral s - get_collateral s u\<rparr>"
    by blast
  from b have e: "entry_of bor_amount (borrows s) u = bor_amount b"
    by (simp add: entry_of_def)
  have g: "entry_of col_amount (collateral s) u = get_collateral s u"
    by (simp add: entry_of_def get_collateral_def)
  have d: "deposits s2 = deposits s \<and> total_stx_deposits s2 = total_stx_deposits s"
    using t1 t2 by (auto simp: stx_transfer_Ok sbtc_transfer_Ok split: if_splits)
  show ?thesis
    using assms(1) e g d fin
    by (simp add: s' ledger_inv_def map_total_del_eq)
qed


lemma ledger_inv_liquidate:
  assumes "ledger_inv s" and "liquidate t oracle u s = Some (Ok v, s')"
  shows "ledger_inv s'"
proof -
  from assms(1) have fin: "finite (dom (collateral s))" "finite (dom (borrows s))"
    by (simp_all add: ledger_inv_def)
  from liquidate_Ok [OF assms(2)] assms(1) entry_le_map_total [OF fin(1), of col_amount u]
    entry_le_map_total [OF fin(2), of bor_amount u]
  show ?thesis
    by (auto simp: ledger_inv_def stx_transfer_Ok sbtc_transfer_Ok entry_of_def
        map_total_del_eq split: if_splits)
qed

lemma ledger_inv_body:
  assumes "ledger_inv s" and "body t oracle c s = Some (Ok v, s')"
  shows "ledger_inv s'"
proof (cases c)
  case (Deposit_stx a)
  with assms(2) have "deposit_stx t a s = Some (Ok v, s')" by simp
  with assms(1) show ?thesis by (rule ledger_inv_deposit)
next
  case (Withdraw_stx a)
  with assms(2) have "withdraw_stx t a s = Some (Ok v, s')" by simp
  with assms(1) show ?thesis by (rule ledger_inv_withdraw)
next
  case (Borrow_stx ca a)
  with assms(2) have "borrow_stx t oracle ca a s = Some (Ok v, s')" by simp
  with assms(1) show ?thesis by (rule ledger_inv_borrow)
next
  case Repay
  with assms(2) have "repay t s = Some (Ok v, s')" by simp
  with assms(1) show ?thesis by (rule ledger_inv_repay)
next
  case (Liquidate u)
  with assms(2) have "liquidate t oracle u s = Some (Ok v, s')" by simp
  with assms(1) show ?thesis by (rule ledger_inv_liquidate)
next
  case (Set_paused x)
  with assms show ?thesis
    by (auto simp: ledger_inv_def set_paused_def err_defs split: if_splits)
next
  case (Set_admin x)
  with assms show ?thesis
    by (auto simp: ledger_inv_def set_admin_def err_defs split: if_splits)
next
  case (Set_params l i th p)
  with assms show ?thesis
    by (auto simp: ledger_inv_def set_params_def err_defs split: if_splits)
next
  case (Set_sbtc_token x)
  with assms show ?thesis
    by (auto simp: ledger_inv_def set_sbtc_token_def err_defs split: if_splits)
qed

lemma call_public_Committed:
  "call_public t oracle c s = (Committed, s') \<longleftrightarrow> (\<exists>v. body t oracle c s = Some (Ok v, s'))"
  by (auto simp: call_public_def split: option.splits response.splits prod.splits)

lemma reachable_invs:
  assumes "reachable s"
  shows "clock_inv s \<and> ledger_inv s"
  using assms
proof (induction rule: reachable.induct)
  case (reachable_init stx sbtc)
  show ?case
    by (simp add: clock_inv_def ledger_inv_def initial_world_def map_total_empty)
next
  case (reachable_ledger s stx sbtc)
  then show ?case by (simp add: clock_inv_def ledger_inv_def)
next
  case (reachable_call s t orc c s')
  from reachable_call(2) obtain v where b: "body t orc c s = Some (Ok v, s')"
    by (auto simp: call_public_Committed)
  from reachable_call(3) have "clock_inv s" and "ledger_inv s" by simp_all
  then show ?case using b clock_inv_body ledger_inv_body by blast
qed

section \<open>The concrete run\<close>

lemmas scenario_defs = wallet_1_def wallet_2_def genesis_def after_deposit_def after_borrow_def
  initial_world_def contract_principal_def

lemma genesis_deposit:
  "call_public wallet_1 orc (Deposit_stx 10000) genesis = (Committed, after_deposit)"
  by (simp add: call_public_def deposit_stx_def accrue_interest_eq stx_transfer_def uadd_def
      uint_limit_def scenario_defs fun_eq_iff)

lemma after_deposit_borrow:
  "call_public wallet_2 (Ok 100) (Borrow_stx 10 500) after_deposit = (Committed, after_borrow)"
  by (simp add: call_public_def borrow_stx_def accrue_interest_eq calculate_interest_eq
      stx_transfer_def sbtc_transfer_def ft_transfer_def uadd_def umul_def udiv_def
      unwrap_panic_def get_sbtc_stx_price_def get_current_time_def get_contract_balance_def
      uint_limit_def scenario_defs LTV_PERCENTAGE_def fun_eq_iff)

lemma reachable_after_borrow: "reachable after_borrow"
  using reachable_call [OF reachable_call [OF reachable_init genesis_deposit [unfolded genesis_def]] after_deposit_borrow]
  by simp


lemma reachable_clock: "reachable s \<Longrightarrow> clock_inv s"
  by (simp add: reachable_invs)

lemma reachable_ledger_inv: "reachable s \<Longrightarrow> ledger_inv s"
  by (simp add: reachable_invs)

section \<open>Claims\<close>

text \<open>
  C10. The pool's clock \<^verbatim>\<open>get-current-time\<close> is the constant 0. Hence in every reachable
  state and for every account: \<^verbatim>\<open>calculate-interest\<close> on the account's principal and
  accrual time is 0, \<^verbatim>\<open>accrue-interest\<close> changes nothing (in particular neither the total
  of borrows nor the cumulative yield index), and \<^verbatim>\<open>get-debt\<close> is exactly the stored
  principal (0 without a borrow entry).
\<close>

theorem constant_clock_no_interest:
  assumes "reachable s"
  shows "get_current_time = 0 \<and>
         calculate_interest s (entry_of bor_amount (borrows s) u)
           (case borrows s u of None \<Rightarrow> get_current_time | Some b \<Rightarrow> last_accrued b) = Some 0 \<and>
         accrue_interest s = Some s \<and>
         get_debt s u = Some (entry_of bor_amount (borrows s) u)"
proof -
  from assms have c: "clock_inv s" by (rule reachable_clock)
  then have l: "last_interest_accrual s = 0" by (simp add: clock_inv_def)
  have t: "(case borrows s u of None \<Rightarrow> get_current_time | Some b \<Rightarrow> last_accrued b) = 0"
    using c by (auto simp: clock_inv_def get_current_time_def split: option.splits)
  have b: "entry_of bor_amount (borrows s) u < uint_limit"
    using c by (auto simp: clock_inv_def entry_of_def uint_limit_def split: option.splits)
  have i: "calculate_interest s (entry_of bor_amount (borrows s) u)
           (case borrows s u of None \<Rightarrow> get_current_time | Some b \<Rightarrow> last_accrued b) = Some 0"
    unfolding t by (simp add: calculate_interest_eq)
  have d: "get_debt s u = Some (entry_of bor_amount (borrows s) u)"
    using i b by (simp add: get_debt_def Let_def entry_of_def uadd_def)
  show ?thesis
    using l i d by (simp add: get_current_time_def accrue_interest_eq)
qed

theorem constant_clock_no_interest_witness:
  "calculate_interest after_borrow 500 0 = Some 0 \<and>
   accrue_interest after_borrow = Some after_borrow \<and>
   get_debt after_borrow wallet_2 = Some 500"
  using constant_clock_no_interest [OF reachable_after_borrow, of wallet_2]
  by (simp add: entry_of_def after_borrow_def)

text \<open>
  C4. In every state reachable by committed calls, the deposit entries sum to
  \<^verbatim>\<open>total-stx-deposits\<close>, the collateral entries sum to \<^verbatim>\<open>total-sbtc-collateral\<close>, and the
  debts of all borrowers, each as \<^verbatim>\<open>get-debt\<close> folds it forward with the per-account
  interest formula, sum to at most \<^verbatim>\<open>total-stx-borrows\<close>. The three maps are finite, so the
  sums range over all entries.
\<close>

theorem aggregates_match_records:
  assumes "reachable s"
  shows "finite (dom (deposits s)) \<and> finite (dom (collateral s)) \<and> finite (dom (borrows s)) \<and>
         (\<Sum>u\<in>dom (deposits s). dep_amount (the (deposits s u))) = total_stx_deposits s \<and>
         (\<Sum>u\<in>dom (collateral s). col_amount (the (collateral s u))) = total_sbtc_collateral s \<and>
         (\<exists>debt. (\<forall>u\<in>dom (borrows s). get_debt s u = Some (debt u)) \<and>
                  (\<Sum>u\<in>dom (borrows s). debt u) \<le> total_stx_borrows s)"
proof -
  from assms have l: "ledger_inv s" by (rule reachable_ledger_inv)
  from assms have c: "clock_inv s" by (rule reachable_clock)
  have d: "get_debt s u = Some (bor_amount (the (borrows s u)))" if "u \<in> dom (borrows s)" for u
  proof -
    from that obtain b where b: "borrows s u = Some b" by auto
    with c have "last_accrued b = 0" "bor_amount b < uint_limit"
      by (auto simp: clock_inv_def)
    with b show ?thesis
      by (simp add: get_debt_def Let_def calculate_interest_eq uadd_def)
  qed
  have "(\<Sum>u\<in>dom (borrows s). bor_amount (the (borrows s u))) \<le> total_stx_borrows s"
    using l by (simp add: ledger_inv_def map_total_def)
  with d have "\<exists>debt. (\<forall>u\<in>dom (borrows s). get_debt s u = Some (debt u)) \<and>
                  (\<Sum>u\<in>dom (borrows s). debt u) \<le> total_stx_borrows s"
    by (intro exI [of _ "\<lambda>u. bor_amount (the (borrows s u))"]) simp
  with l show ?thesis
    by (simp add: ledger_inv_def map_total_def)
qed

theorem aggregates_match_records_witness:
  "(\<Sum>u\<in>dom (deposits after_borrow). dep_amount (the (deposits after_borrow u))) = 10000 \<and>
   (\<Sum>u\<in>dom (collateral after_borrow). col_amount (the (collateral after_borrow u))) = 10 \<and>
   (\<exists>debt. get_debt after_borrow wallet_2 = Some (debt wallet_2) \<and>
            (\<Sum>u\<in>dom (borrows after_borrow). debt u) \<le> 500)"
  using aggregates_match_records [OF reachable_after_borrow]
  by (simp add: after_borrow_def after_deposit_def)

section \<open>Helper facts for the claims\<close>

lemma body_Ok_index:
  assumes "body t orc c s = Some (Ok v, s')"
  shows "cumulative_yield_bips s' = cumulative_yield_bips s"
proof (cases c)
  case (Deposit_stx a)
  with assms show ?thesis
    by (auto simp: stx_transfer_Ok dest!: deposit_stx_Ok)
next
  case (Withdraw_stx a)
  with assms show ?thesis
    by (auto simp: stx_transfer_Ok dest!: withdraw_stx_Ok)
next
  case (Borrow_stx ca a)
  with assms show ?thesis
    by (auto simp: stx_transfer_Ok sbtc_transfer_Ok dest!: borrow_stx_Ok split: if_splits)
next
  case Repay
  with assms show ?thesis
    by (auto simp: stx_transfer_Ok sbtc_transfer_Ok dest!: repay_Ok split: if_splits)
next
  case (Liquidate u)
  with assms show ?thesis
    by (auto simp: stx_transfer_Ok sbtc_transfer_Ok dest!: liquidate_Ok split: if_splits)
next
  case (Set_paused x)
  with assms show ?thesis
    by (auto simp: set_paused_def err_defs split: if_splits)
next
  case (Set_admin x)
  with assms show ?thesis
    by (auto simp: set_admin_def err_defs split: if_splits)
next
  case (Set_params l i th p)
  with assms show ?thesis
    by (auto simp: set_params_def err_defs split: if_splits)
next
  case (Set_sbtc_token x)
  with assms show ?thesis
    by (auto simp: set_sbtc_token_def err_defs split: if_splits)
qed

lemma call_public_cases:
  assumes "call_public t orc c s = (r, s')"
  shows "(r = Committed \<and> (\<exists>v. body t orc c s = Some (Ok v, s'))) \<or> (r \<noteq> Committed \<and> s' = s)"
  using assms
  by (auto simp: call_public_def split: option.splits response.splits prod.splits)

lemma accrue_interest_at_index_mono:
  assumes "accrue_interest_at now s = Some s'"
  shows "cumulative_yield_bips s \<le> cumulative_yield_bips s'"
  using assms
  by (auto simp: accrue_interest_at_def Let_def uadd_def
      split: if_splits Option.bind_splits)

lemma genesis_small_deposit:
  "call_public wallet_1 orc (Deposit_stx 1000) genesis = (Committed, after_small_deposit)"
  by (simp add: call_public_def deposit_stx_def accrue_interest_eq stx_transfer_def uadd_def
      uint_limit_def scenario_defs after_small_deposit_def fun_eq_iff)

section \<open>Claims on monotonicity and round trips\<close>

text \<open>
  C5. No call, committed or not and from any storage, decreases
  \<^verbatim>\<open>cumulative-yield-bips\<close>; so the index never decreases along any sequence of calls
  from the deployed pool.
\<close>

theorem yield_index_never_decreases:
  assumes "call_public t orc c s = (r, s')"
  shows "cumulative_yield_bips s \<le> cumulative_yield_bips s'"
  using call_public_cases [OF assms] body_Ok_index by auto

theorem yield_index_never_decreases_witness:
  "cumulative_yield_bips after_deposit \<le> cumulative_yield_bips after_borrow"
  using yield_index_never_decreases [OF after_deposit_borrow] by simp


text \<open>
  C8. A committed \<^verbatim>\<open>deposit-stx\<close> of \<open>n\<close> (for instance 1000), from any storage and by
  any account, followed at once by \<^verbatim>\<open>withdraw-stx\<close> of \<open>n\<close> by the same account: the
  withdrawal commits, the accrual in between changes nothing, the pending yield it
  computes is 0, exactly \<open>n\<close> goes back to the depositor (whose balance is what it was
  before the deposit), and \<^verbatim>\<open>total-stx-deposits\<close> is back at its value before the deposit.
\<close>

theorem deposit_withdraw_round_trip:
  assumes "call_public u orc (Deposit_stx n) s = (Committed, s1)"
  shows "\<exists>s2. call_public u orc' (Withdraw_stx n) s1 = (Committed, s2) \<and>
              accrue_interest s1 = Some s1 \<and>
              get_pending_yield s1 u = Some 0 \<and>
              stx_balance s2 u = stx_balance s1 u + n \<and>
              stx_balance s2 u = stx_balance s u \<and>
              total_stx_deposits s2 = total_stx_deposits s"
proof -
  from assms obtain v where "deposit_stx u n s = Some (Ok v, s1)"
    by (auto simp: call_public_Committed)
  from deposit_stx_Ok [OF this] obtain s0 where
    tr: "stx_transfer n u contract_principal u s = Ok s0" and
    l: "last_interest_accrual s = 0" and p: "\<not> paused s" and
    b: "entry_of dep_amount (deposits s) u + n < uint_limit" and
    tot: "total_stx_deposits s + n < uint_limit" and
    s1: "s1 = s0\<lparr>deposits := (deposits s)(u \<mapsto> \<lparr>dep_amount = entry_of dep_amount (deposits s) u + n,
                                       yield_index = cumulative_yield_bips s\<rparr>),
            total_stx_deposits := total_stx_deposits s + n\<rparr>"
    by (auto simp: entry_of_def)
  from tr have n: "0 < n" and u: "u \<noteq> contract_principal" and bal: "n \<le> stx_balance s u" and
    s0: "s0 = s\<lparr>stx_balance := (stx_balance s)(u := stx_balance s u - n,
                    contract_principal := stx_balance s contract_principal + n)\<rparr>"
    by (auto simp: stx_transfer_Ok)
  have acc: "accrue_interest s1 = Some s1"
    using l by (simp add: accrue_interest_eq s1 s0)
  have py: "get_pending_yield s1 u = Some 0"
    by (simp add: get_pending_yield_def s1 s0 usub_def umul_def udiv_def uint_limit_def)
  define s3 where "s3 = s1\<lparr>deposits := (if entry_of dep_amount (deposits s) u = 0 then (deposits s1)(u := None)
                           else (deposits s1)(u \<mapsto> \<lparr>dep_amount = entry_of dep_amount (deposits s) u,
                                                   yield_index = cumulative_yield_bips s1\<rparr>)),
            total_stx_deposits := total_stx_deposits s\<rparr>"
  define s2 where "s2 = s3\<lparr>stx_balance := (stx_balance s3)(contract_principal := stx_balance s3 contract_principal - n,
                    u := stx_balance s3 u + n)\<rparr>"
  have d1: "deposits s1 u = Some \<lparr>dep_amount = entry_of dep_amount (deposits s) u + n,
                                    yield_index = cumulative_yield_bips s\<rparr>"
    and p1: "\<not> paused s1"
    and t1: "total_stx_deposits s1 = total_stx_deposits s + n"
    and c1: "stx_balance s1 contract_principal = stx_balance s contract_principal + n"
    using p u by (simp_all add: s1 s0)
  have w: "withdraw_stx u n s1 = Some (Ok True, s2)"
    using n u b tot
    by (simp add: withdraw_stx_def d1 p1 t1 c1 acc py Let_def err_defs usub_def uadd_def
        get_contract_balance_def stx_transfer_def s2_def s3_def)
  have "stx_balance s2 u = stx_balance s1 u + n"
    by (simp add: s2_def s3_def)
  moreover have "stx_balance s2 u = stx_balance s u"
    using bal u by (simp add: s2_def s3_def s1 s0)
  moreover have "total_stx_deposits s2 = total_stx_deposits s"
    by (simp add: s2_def s3_def)
  moreover have "call_public u orc' (Withdraw_stx n) s1 = (Committed, s2)"
    using w by (simp add: call_public_def)
  ultimately show ?thesis using acc py by blast
qed


theorem deposit_withdraw_round_trip_witness:
  "\<exists>s2. call_public wallet_1 (Ok 100) (Withdraw_stx 1000) after_small_deposit = (Committed, s2) \<and>
        get_pending_yield after_small_deposit wallet_1 = Some 0 \<and>
        stx_balance s2 wallet_1 = 10000 \<and>
        total_stx_deposits s2 = 0"
proof -
  from deposit_withdraw_round_trip [OF genesis_small_deposit [of "Ok 100"], of "Ok 100"]
  obtain s2 where
    "call_public wallet_1 (Ok 100) (Withdraw_stx 1000) after_small_deposit = (Committed, s2)"
    "get_pending_yield after_small_deposit wallet_1 = Some 0"
    "stx_balance s2 wallet_1 = stx_balance genesis wallet_1"
    "total_stx_deposits s2 = total_stx_deposits genesis"
    by blast
  moreover have "stx_balance genesis wallet_1 = 10000" "total_stx_deposits genesis = 0"
    by (simp_all add: genesis_def initial_world_def)
  ultimately show ?thesis by auto
qed

section \<open>Borrowing and liquidation\<close>

lemma config_inv_body:
  assumes "config_inv s" and "body t orc c s = Some (Ok v, s')"
  shows "config_inv s'"
proof (cases c)
  case (Deposit_stx a)
  with assms show ?thesis
    by (auto simp: config_inv_def stx_transfer_Ok dest!: deposit_stx_Ok)
next
  case (Withdraw_stx a)
  with assms show ?thesis
    by (auto simp: config_inv_def stx_transfer_Ok dest!: withdraw_stx_Ok)
next
  case (Borrow_stx ca a)
  with assms show ?thesis
    by (auto simp: config_inv_def stx_transfer_Ok sbtc_transfer_Ok dest!: borrow_stx_Ok split: if_splits)
next
  case Repay
  with assms show ?thesis
    by (auto simp: config_inv_def stx_transfer_Ok sbtc_transfer_Ok dest!: repay_Ok split: if_splits)
next
  case (Liquidate u)
  with assms show ?thesis
    by (auto simp: config_inv_def stx_transfer_Ok sbtc_transfer_Ok dest!: liquidate_Ok split: if_splits)
next
  case (Set_paused x)
  with assms show ?thesis
    by (auto simp: config_inv_def set_paused_def err_defs split: if_splits)
next
  case (Set_admin x)
  with assms show ?thesis
    by (auto simp: config_inv_def set_admin_def err_defs split: if_splits)
next
  case (Set_params l i th p)
  with assms show ?thesis
    by (auto simp: config_inv_def set_params_def err_defs split: if_splits)
next
  case (Set_sbtc_token x)
  with assms show ?thesis
    by (auto simp: config_inv_def set_sbtc_token_def err_defs split: if_splits)
qed

lemma reachable_config: "reachable s \<Longrightarrow> config_inv s"
proof (induction rule: reachable.induct)
  case (reachable_init stx sbtc)
  show ?case
    by (simp add: config_inv_def initial_world_def LIQUIDATION_PENALTY_PERCENTAGE_def)
next
  case (reachable_ledger s stx sbtc)
  then show ?case by (simp add: config_inv_def)
next
  case (reachable_call s t orc c s')
  from reachable_call(2) obtain v where "body t orc c s = Some (Ok v, s')"
    by (auto simp: call_public_Committed)
  with reachable_call(3) show ?case by (rule config_inv_body)
qed

text \<open>\<^verbatim>\<open>liquidate\<close>, once both entries are found and the pool is not paused.\<close>

lemma liquidate_checked:
  assumes b: "borrows s user = Some b" and e: "collateral s user = Some e"
    and p: "\<not> paused s" and la: "last_accrued b = 0"
    and price: "0 < price"
    and v: "col_amount e * price < uint_limit"
    and vt: "col_amount e * price * liquidation_threshold_percentage s < uint_limit"
    and o: "bor_amount b * 100 < uint_limit"
  shows "liquidate t (Ok price) user s =
     (if bor_amount b * 100 < col_amount e * price * liquidation_threshold_percentage s
      then Some (ERR_CANNOT_BE_LIQUIDATED, s)
      else do {
        kept \<leftarrow> usub 100 (liquidation_penalty_percentage s);
        discounted \<leftarrow> umul (bor_amount b) kept;
        repay_amount \<leftarrow> udiv discounted 100;
        case stx_transfer repay_amount t contract_principal t s of
          Err x \<Rightarrow> Some (Err 1, s)
        | Ok s1 \<Rightarrow>
           (case sbtc_transfer (col_amount e) contract_principal t contract_principal s1 of
              Err x \<Rightarrow> Some (ERR_INVALID_SBTC_CONTRACT, s1)
            | Ok s2 \<Rightarrow> do {
                total_b \<leftarrow> usub (total_stx_borrows s2) (bor_amount b);
                total_c \<leftarrow> usub (total_sbtc_collateral s2) (col_amount e);
                Some (Ok True, s2\<lparr>borrows := (borrows s2)(user := None),
                                    collateral := (collateral s2)(user := None),
                                    total_stx_borrows := total_b,
                                    total_sbtc_collateral := total_c\<rparr>)
              })
      })"
proof -
  have bl: "bor_amount b < uint_limit" using o by simp
  have f: "uadd (bor_amount b) 0 = Some (bor_amount b)"
    "umul (col_amount e) price = Some (col_amount e * price)"
    "umul (bor_amount b) 100 = Some (bor_amount b * 100)"
    "umul (col_amount e * price) (liquidation_threshold_percentage s) =
       Some (col_amount e * price * liquidation_threshold_percentage s)"
    using bl v vt o by (simp_all add: uadd_def umul_def)
  show ?thesis
    using p price
    by (simp add: liquidate_def b e la calculate_interest_eq f Let_def
        get_sbtc_stx_price_def unwrap_panic_def not_le
        split: response.splits Option.bind_splits cong: if_cong)
qed


lemma liquidate_committed:
  assumes r: "reachable s"
    and b: "borrows s user = Some b" and e: "collateral s user = Some e"
    and p: "\<not> paused s" and price: "0 < price"
    and v: "col_amount e * price < uint_limit"
    and vt: "col_amount e * price * liquidation_threshold_percentage s < uint_limit"
    and o: "bor_amount b * 100 < uint_limit"
    and th: "col_amount e * price * liquidation_threshold_percentage s \<le> bor_amount b * 100"
    and t: "t \<noteq> contract_principal"
    and pos: "0 < bor_amount b * (100 - liquidation_penalty_percentage s) div 100"
    and pay: "bor_amount b * (100 - liquidation_penalty_percentage s) div 100 \<le> stx_balance s t"
    and held: "col_amount e \<le> sbtc_balance s contract_principal"
  shows "fst (call_public t (Ok price) (Liquidate user) s) = Committed"
proof -
  from r have c: "clock_inv s" and l: "ledger_inv s" and g: "config_inv s"
    by (simp_all add: reachable_clock reachable_ledger_inv reachable_config)
  from c b have la: "last_accrued b = 0" by (simp add: clock_inv_def)
  from g e have ce: "0 < col_amount e" and pen: "liquidation_penalty_percentage s \<le> 30"
    by (auto simp: config_inv_def)
  from l have fin: "finite (dom (borrows s))" "finite (dom (collateral s))"
    and tb: "map_total bor_amount (borrows s) = total_stx_borrows s"
    and tc: "map_total col_amount (collateral s) = total_sbtc_collateral s"
    by (simp_all add: ledger_inv_def)
  have bt: "bor_amount b \<le> total_stx_borrows s"
    using entry_le_map_total [OF fin(1), of bor_amount user] b tb by (simp add: entry_of_def)
  have ct: "col_amount e \<le> total_sbtc_collateral s"
    using entry_le_map_total [OF fin(2), of col_amount user] e tc by (simp add: entry_of_def)
  have "bor_amount b * (100 - liquidation_penalty_percentage s) \<le> bor_amount b * 100"
    by (rule mult_le_mono2) simp
  then have d: "bor_amount b * (100 - liquidation_penalty_percentage s) < uint_limit"
    using o by (rule le_less_trans)
  have f: "usub 100 (liquidation_penalty_percentage s) = Some (100 - liquidation_penalty_percentage s)"
    "umul (bor_amount b) (100 - liquidation_penalty_percentage s) =
       Some (bor_amount b * (100 - liquidation_penalty_percentage s))"
    "udiv (bor_amount b * (100 - liquidation_penalty_percentage s)) 100 =
       Some (bor_amount b * (100 - liquidation_penalty_percentage s) div 100)"
    using pen d by (simp_all add: usub_def umul_def udiv_def)
  show ?thesis
    using th t pos pay held ce bt ct
    by (simp add: call_public_def liquidate_checked [OF b e p la price v vt o] f
        stx_transfer_def sbtc_transfer_def ft_transfer_def usub_def not_less)
qed

lemma reachable_liquidator_funded: "reachable liquidator_funded"
  unfolding liquidator_funded_def by (rule reachable_ledger [OF reachable_after_borrow])

lemma after_borrow_pause:
  "call_public DEFAULT_ADMIN orc (Set_paused True) after_borrow = (Committed, paused_world)"
  by (simp add: call_public_def set_paused_def paused_world_def scenario_defs)

lemma reachable_paused_world: "reachable paused_world"
  using reachable_call [OF reachable_after_borrow after_borrow_pause] .

lemma borrow_stx_scenario:
  assumes l: "last_interest_accrual s = 0" and p: "\<not> paused s" and ltv: "ltv_percentage s = 70"
    and nb: "borrows s u = None"
    and col: "get_collateral s u + c = 10"
    and own: "c \<le> sbtc_balance s u" and u: "u \<noteq> contract_principal"
    and liq: "700 \<le> get_contract_balance s"
    and tb: "total_stx_borrows s + 700 < uint_limit"
    and tc: "total_sbtc_collateral s + c < uint_limit"
    and a: "0 < a" "a < uint_limit"
  shows "fst (call_public u (Ok 100) (Borrow_stx c a) s) =
           (if a \<le> 700 then Committed else Rejected 101)"
proof -
  have g: "0 < c \<or> 0 < (case collateral s u of None \<Rightarrow> 0 | Some e \<Rightarrow> col_amount e)"
    using col by (auto simp: get_collateral_def)
  have e: "uadd (case collateral s u of None \<Rightarrow> 0 | Some e \<Rightarrow> col_amount e) c = Some 10"
    using col by (simp add: uadd_def get_collateral_def uint_limit_def)
  have m: "umul 10 100 = Some 1000" "umul 1000 70 = Some 70000" "udiv 70000 100 = Some 700"
    by (simp_all add: umul_def udiv_def uint_limit_def)
  have n: "uadd 0 0 = Some 0" "uadd 0 a = Some a"
    using a by (simp_all add: uadd_def)
  show ?thesis
  proof (cases "a \<le> 700")
    case False
    then show ?thesis
      using l p ltv nb g a
      by (simp add: call_public_def borrow_stx_def accrue_interest_eq calculate_interest_eq
          get_current_time_def get_sbtc_stx_price_def unwrap_panic_def e m n err_defs Let_def)
  next
    case True
    with liq have la: "a \<le> get_contract_balance s" by simp
    from True tb have ta: "total_stx_borrows s + a < uint_limit" by simp
    have st: "0 < c \<Longrightarrow> sbtc_transfer c u contract_principal u s =
       Ok (s\<lparr>sbtc_balance := (sbtc_balance s)(u := sbtc_balance s u - c,
              contract_principal := sbtc_balance s contract_principal + c)\<rparr>)"
      using own u by (simp add: sbtc_transfer_def ft_transfer_def)
    have tbe: "uadd (total_stx_borrows s) a = Some (total_stx_borrows s + a)"
      using ta by (simp add: uadd_def)
    have tce: "uadd (total_sbtc_collateral s) c = Some (total_sbtc_collateral s + c)"
      using tc by (simp add: uadd_def)
    show ?thesis
      using l p ltv nb g a True la u
      by (simp add: call_public_def borrow_stx_def accrue_interest_eq calculate_interest_eq
          get_current_time_def get_sbtc_stx_price_def unwrap_panic_def e m n err_defs Let_def st
          stx_transfer_def get_contract_balance_def tbe tce)
  qed
qed

text \<open>
  C6. An account without debt whose collateral, already held plus newly posted, totals
  10 units, at an oracle price of 100 and an LTV of 70 percent, in a reachable pool that
  is not paused, holds at least 700 STX and whose aggregates stay within \<^verbatim>\<open>uint\<close>, the
  account owning what it posts: the borrow limit evaluates to 700, a request of 700
  commits, a request of 701 is rejected with \<^verbatim>\<open>ERR_EXCEEDED_MAX_BORROW\<close> (u101), and in
  general a request commits when it is at most 700 and is rejected with u101 otherwise.
\<close>

theorem borrow_limit_boundary:
  assumes "reachable s" and "\<not> paused s" and "ltv_percentage s = 70"
    and "borrows s u = None"
    and "get_collateral s u + c = 10"
    and "c \<le> sbtc_balance s u" and "u \<noteq> contract_principal"
    and "700 \<le> get_contract_balance s"
    and "total_stx_borrows s + 700 < uint_limit"
    and "total_sbtc_collateral s + c < uint_limit"
  shows "(get_collateral s u + c) * 100 * ltv_percentage s div 100 = 700 \<and>
         fst (call_public u (Ok 100) (Borrow_stx c 700) s) = Committed \<and>
         fst (call_public u (Ok 100) (Borrow_stx c 701) s) = Rejected 101 \<and>
         (\<forall>a. 0 < a \<and> a < uint_limit \<longrightarrow>
              fst (call_public u (Ok 100) (Borrow_stx c a) s) =
                (if a \<le> 700 then Committed else Rejected 101))"
proof -
  from assms(1) have l: "last_interest_accrual s = 0"
    using reachable_clock by (simp add: clock_inv_def)
  note sc = borrow_stx_scenario [OF l assms(2-10)]
  have "fst (call_public u (Ok 100) (Borrow_stx c 700) s) = Committed"
    using sc [of 700] by (simp add: uint_limit_def)
  moreover have "fst (call_public u (Ok 100) (Borrow_stx c 701) s) = Rejected 101"
    using sc [of 701] by (simp add: uint_limit_def)
  moreover have "(get_collateral s u + c) * 100 * ltv_percentage s div 100 = 700"
    using assms(3,5) by simp
  ultimately show ?thesis using sc by blast
qed

theorem borrow_limit_boundary_witness:
  "fst (call_public wallet_2 (Ok 100) (Borrow_stx 10 700) after_deposit) = Committed \<and>
   fst (call_public wallet_2 (Ok 100) (Borrow_stx 10 701) after_deposit) = Rejected 101"
proof -
  have r: "reachable after_deposit"
    using reachable_call [OF reachable_init genesis_deposit [unfolded genesis_def]] .
  have "\<not> paused after_deposit" "ltv_percentage after_deposit = 70"
    "borrows after_deposit wallet_2 = None" "get_collateral after_deposit wallet_2 + 10 = 10"
    "10 \<le> sbtc_balance after_deposit wallet_2" "wallet_2 \<noteq> contract_principal"
    "700 \<le> get_contract_balance after_deposit"
    "total_stx_borrows after_deposit + 700 < uint_limit"
    "total_sbtc_collateral after_deposit + 10 < uint_limit"
    by (simp_all add: scenario_defs LTV_PERCENTAGE_def get_collateral_def
        get_contract_balance_def uint_limit_def)
  from borrow_limit_boundary [OF r this] show ?thesis by simp
qed


text \<open>
  C7, as stated, fails on reachable storage. With both entries present and a positive
  price: on the paused pool \<^verbatim>\<open>liquidate\<close> is rejected with \<^verbatim>\<open>ERR_PAUSED\<close> (u108) although the
  threshold is met exactly (owed 500, collateral 10 at price 50, threshold 100); on the
  running pool it is rejected with \<open>u1\<close> when the liquidator cannot pay; and at the price
  \<open>2 ^ 128 - 1\<close> the position is far below the threshold, yet the call is not rejected with
  \<^verbatim>\<open>ERR_CANNOT_BE_LIQUIDATED\<close>: the product of collateral and price overflows \<^verbatim>\<open>uint\<close> and the
  call stops with a runtime error.
\<close>

theorem liquidation_blocked_despite_threshold:
  "borrows paused_world wallet_2 = Some \<lparr>bor_amount = 500, last_accrued = 0\<rparr> \<and>
   collateral paused_world wallet_2 = Some \<lparr>col_amount = 10\<rparr> \<and>
   10 * 50 * liquidation_threshold_percentage paused_world \<le> 500 * 100 \<and>
   call_public wallet_3 (Ok 50) (Liquidate wallet_2) paused_world = (Rejected 108, paused_world) \<and>
   borrows after_borrow wallet_2 = Some \<lparr>bor_amount = 500, last_accrued = 0\<rparr> \<and>
   collateral after_borrow wallet_2 = Some \<lparr>col_amount = 10\<rparr> \<and>
   10 * 50 * liquidation_threshold_percentage after_borrow \<le> 500 * 100 \<and>
   call_public wallet_3 (Ok 50) (Liquidate wallet_2) after_borrow = (Rejected 1, after_borrow) \<and>
   borrows liquidator_funded wallet_2 = Some \<lparr>bor_amount = 500, last_accrued = 0\<rparr> \<and>
   collateral liquidator_funded wallet_2 = Some \<lparr>col_amount = 10\<rparr> \<and>
   500 * 100 < 10 * (2 ^ 128 - 1) * liquidation_threshold_percentage liquidator_funded \<and>
   call_public wallet_3 (Ok (2 ^ 128 - 1)) (Liquidate wallet_2) liquidator_funded =
     (Runtime_error, liquidator_funded)"
  by (simp add: call_public_def liquidate_def calculate_interest_eq get_sbtc_stx_price_def
      unwrap_panic_def uadd_def umul_def usub_def udiv_def uint_limit_def stx_transfer_def
      err_defs paused_world_def liquidator_funded_def scenario_defs wallet_3_def
      LIQUIDATION_THRESHOLD_PERCENTAGE_def LIQUIDATION_PENALTY_PERCENTAGE_def)

text \<open>
  C7, amended. For a target with a borrow and a collateral entry, in a reachable pool
  that is not paused, at a positive price and with the three products
  \<open>collateral * price\<close>, \<open>collateral * price * threshold\<close> and \<open>owed * 100\<close> below \<open>2 ^ 128\<close>:
  \<^verbatim>\<open>liquidate\<close> is rejected with \<^verbatim>\<open>ERR_CANNOT_BE_LIQUIDATED\<close> (u102) exactly when
  \<open>owed * 100 < collateral * price * threshold\<close>; it commits only if
  \<open>owed * 100 \<ge> collateral * price * threshold\<close>; and when the liquidator is not the pool,
  the discounted payment \<open>owed * (100 - penalty) / 100\<close> is positive and covered by the
  liquidator's STX, and the pool holds the collateral, it commits exactly when
  \<open>owed * 100 \<ge> collateral * price * threshold\<close>.
\<close>

theorem liquidation_threshold_boundary:
  assumes r: "reachable s"
    and b: "borrows s user = Some b" and e: "collateral s user = Some e"
    and p: "\<not> paused s" and price: "0 < price"
    and v: "col_amount e * price < uint_limit"
    and vt: "col_amount e * price * liquidation_threshold_percentage s < uint_limit"
    and o: "bor_amount b * 100 < uint_limit"
  shows "(fst (call_public t (Ok price) (Liquidate user) s) = Rejected 102) =
           (bor_amount b * 100 < col_amount e * price * liquidation_threshold_percentage s) \<and>
         (fst (call_public t (Ok price) (Liquidate user) s) = Committed \<longrightarrow>
            col_amount e * price * liquidation_threshold_percentage s \<le> bor_amount b * 100) \<and>
         (t \<noteq> contract_principal \<and>
          0 < bor_amount b * (100 - liquidation_penalty_percentage s) div 100 \<and>
          bor_amount b * (100 - liquidation_penalty_percentage s) div 100 \<le> stx_balance s t \<and>
          col_amount e \<le> sbtc_balance s contract_principal \<longrightarrow>
            (fst (call_public t (Ok price) (Liquidate user) s) = Committed) =
              (col_amount e * price * liquidation_threshold_percentage s \<le> bor_amount b * 100))"
proof -
  from r b have la: "last_accrued b = 0"
    using reachable_clock by (auto simp: clock_inv_def)
  note lc = liquidate_checked [OF b e p la price v vt o, of t]
  have one: "(fst (call_public t (Ok price) (Liquidate user) s) = Rejected 102) =
           (bor_amount b * 100 < col_amount e * price * liquidation_threshold_percentage s)"
    by (auto simp: call_public_def lc err_defs
        split: Option.bind_splits response.splits option.splits)
  have two: "col_amount e * price * liquidation_threshold_percentage s \<le> bor_amount b * 100"
    if "fst (call_public t (Ok price) (Liquidate user) s) = Committed"
    using that by (auto simp: call_public_def lc err_defs split: if_splits)
  from one two liquidate_committed [OF r b e p price v vt o] show ?thesis
    by blast
qed


theorem liquidation_threshold_boundary_witness:
  "fst (call_public wallet_3 (Ok 50) (Liquidate wallet_2) liquidator_funded) = Committed \<and>
   fst (call_public wallet_3 (Ok 51) (Liquidate wallet_2) liquidator_funded) = Rejected 102"
proof -
  have b: "borrows liquidator_funded wallet_2 = Some \<lparr>bor_amount = 500, last_accrued = 0\<rparr>"
    and e: "collateral liquidator_funded wallet_2 = Some \<lparr>col_amount = 10\<rparr>"
    and p: "\<not> paused liquidator_funded"
    and th: "liquidation_threshold_percentage liquidator_funded = 100"
    and pen: "liquidation_penalty_percentage liquidator_funded = 10"
    and bal: "stx_balance liquidator_funded wallet_3 = 450"
      "sbtc_balance liquidator_funded contract_principal = 10"
      "wallet_3 \<noteq> contract_principal"
    by (simp_all add: liquidator_funded_def scenario_defs wallet_3_def
        LIQUIDATION_THRESHOLD_PERCENTAGE_def LIQUIDATION_PENALTY_PERCENTAGE_def)
  have "fst (call_public wallet_3 (Ok 50) (Liquidate wallet_2) liquidator_funded) = Committed"
    using liquidation_threshold_boundary [OF reachable_liquidator_funded b e p, of 50 wallet_3]
    by (simp add: th pen bal uint_limit_def)
  moreover
  have "fst (call_public wallet_3 (Ok 51) (Liquidate wallet_2) liquidator_funded) = Rejected 102"
    using liquidation_threshold_boundary [OF reachable_liquidator_funded b e p, of 51 wallet_3]
    by (simp add: th pen bal uint_limit_def)
  ultimately show ?thesis by simp
qed

section \<open>Deposits and the yield checkpoint\<close>









section \<open>Errors and storage writes\<close>










section \<open>The accrual as deployed\<close>

lemma after_deposit_lend_out:
  "call_public wallet_2 (Ok 2000) (Borrow_stx 10 10000) after_deposit = (Committed, lent_out_world)"
  by (simp add: call_public_def borrow_stx_def accrue_interest_eq calculate_interest_eq
      stx_transfer_def sbtc_transfer_def ft_transfer_def uadd_def umul_def udiv_def
      unwrap_panic_def get_sbtc_stx_price_def get_current_time_def get_contract_balance_def
      uint_limit_def scenario_defs lent_out_world_def LTV_PERCENTAGE_def fun_eq_iff)

lemma reachable_lent_out_world: "reachable lent_out_world"
  using reachable_call [OF reachable_call [OF reachable_init genesis_deposit [unfolded genesis_def]]
      after_deposit_lend_out]
  by simp

text \<open>
  On reachable storage \<^verbatim>\<open>accrue-interest\<close> returns the storage as it is, so an entry point
  gives the same outcome whether or not the accrual is run before it.
\<close>

lemma accrual_first_is_unobservable:
  assumes "reachable s"
  shows "body t orc c s = accrue_interest s \<bind> body t orc c"
  using reachable_clock [OF assms] by (simp add: accrue_interest_eq clock_inv_def)

text \<open>
  C9, as stated, fails. The storage reached when wallet 2 borrows the 10000 that wallet 1
  deposited has a rate of 10 percent, 10000 lent out and deposits of 10000. The contract
  reads no clock but \<^verbatim>\<open>get-current-time\<close>, which is 0, so the outcome of a call does not
  depend on when it is made: whenever \<^verbatim>\<open>accrue-interest\<close> is called on this storage, a year
  after the last accrual included, it returns the storage unchanged. The total of
  borrows stays 10000 and the index stays 0; neither grows by 1000.
\<close>

theorem accrual_adds_no_interest:
  "interest_rate_percentage lent_out_world = 10 \<and>
   total_stx_borrows lent_out_world = 10000 \<and>
   total_stx_deposits lent_out_world = 10000 \<and>
   cumulative_yield_bips lent_out_world = 0 \<and>
   accrue_interest lent_out_world = Some lent_out_world \<and>
   total_stx_borrows lent_out_world \<noteq> 10000 + 1000 \<and>
   cumulative_yield_bips lent_out_world \<noteq> 0 + 1000"
  by (simp add: accrue_interest_eq lent_out_world_def scenario_defs INTEREST_RATE_PERCENTAGE_def)

text \<open>
  C9, amended. Whatever the rate and the amounts (in particular at 10 percent with 10000
  lent out and deposits of 10000) and whatever time has passed, a call of
  \<^verbatim>\<open>accrue-interest\<close> that returns leaves \<^verbatim>\<open>total-stx-borrows\<close> and \<^verbatim>\<open>cumulative-yield-bips\<close> as
  they were and stores the clock reading 0 as the accrual time; on every reachable
  storage it does return, with the storage unchanged.
\<close>

theorem accrual_leaves_totals:
  "(reachable s \<longrightarrow> accrue_interest s = Some s) \<and>
   (accrue_interest s = Some s' \<longrightarrow>
      total_stx_borrows s' = total_stx_borrows s \<and>
      cumulative_yield_bips s' = cumulative_yield_bips s \<and>
      last_interest_accrual s' = get_current_time)"
proof -
  have "accrue_interest s = Some s" if "reachable s"
    using reachable_clock [OF that] by (simp add: accrue_interest_eq clock_inv_def)
  moreover have "total_stx_borrows s' = total_stx_borrows s \<and>
      cumulative_yield_bips s' = cumulative_yield_bips s \<and>
      last_interest_accrual s' = get_current_time" if "accrue_interest s = Some s'"
    using that by (auto simp: accrue_interest_eq get_current_time_def split: if_splits)
  ultimately show ?thesis by blast
qed

theorem accrual_leaves_totals_witness:
  "accrue_interest lent_out_world = Some lent_out_world \<and>
   (\<exists>s'. accrue_interest lent_out_world = Some s' \<and> total_stx_borrows s' = 10000 \<and>
         cumulative_yield_bips s' = 0)"
proof -
  have i: "total_stx_borrows lent_out_world = 10000" "cumulative_yield_bips lent_out_world = 0"
    by (simp_all add: lent_out_world_def scenario_defs)
  from accrual_leaves_totals [of lent_out_world lent_out_world] reachable_lent_out_world
  have a: "accrue_interest lent_out_world = Some lent_out_world" by simp
  with accrual_leaves_totals [of lent_out_world lent_out_world] i show ?thesis by simp
qed

end
